theory Spec2Isabelle
  imports Main "HOL-Library.Word" "HOL-Library.AList"
begin

text \<open>
  A shallow embedding of the subtitle-to-flashcard scripts \<^verbatim>\<open>scripts/parseSubs.ts\<close> and
  \<^verbatim>\<open>scripts/enrichCards.ts\<close>: the strings and numbers of JavaScript as far as the
  scripts use them, the subtitle parser with its timecode codec and card builder, the
  lexical enricher, the translation resolver with its hint indices and its cache, and
  the tabular output. The definitions come first, each from the function of the same
  name; the facts about them and the claims follow.
\<close>

section \<open>JavaScript strings\<close>

text \<open>
  The scripts are TypeScript run on Node. A JavaScript string is a sequence of 16-bit
  UTF-16 code units, so a string is a list of 16-bit words here. \<open>js\<close> embeds an
  ASCII literal.
\<close>

type_synonym jschar = "16 word"
type_synonym jsstring = "jschar list"

definition js :: "string \<Rightarrow> jsstring" where
  "js s = map (\<lambda>c. word_of_nat (of_char c)) s"

abbreviation TAB :: jschar where "TAB \<equiv> 0x09"
abbreviation LF :: jschar where "LF \<equiv> 0x0A"
abbreviation CR :: jschar where "CR \<equiv> 0x0D"
abbreviation SP :: jschar where "SP \<equiv> 0x20"
abbreviation BOM :: jschar where "BOM \<equiv> 0xFEFF"

text \<open>
  The characters that \<^verbatim>\<open>String.prototype.trim\<close> removes: the ECMAScript WhiteSpace
  and LineTerminator code points (tab, LF, VT, FF, CR, space, NBSP, the Unicode space
  separators, LS, PS and the byte-order mark).
\<close>

definition is_ws :: "jschar \<Rightarrow> bool" where
  "is_ws c \<longleftrightarrow>
     c = 0x09 \<or> c = 0x0A \<or> c = 0x0B \<or> c = 0x0C \<or> c = 0x0D \<or> c = 0x20 \<or> c = 0xA0 \<or>
     c = 0x1680 \<or> (0x2000 \<le> c \<and> c \<le> 0x200A) \<or> c = 0x2028 \<or> c = 0x2029 \<or>
     c = 0x202F \<or> c = 0x205F \<or> c = 0x3000 \<or> c = 0xFEFF"

definition trim :: "jsstring \<Rightarrow> jsstring" where
  "trim s = rev (dropWhile is_ws (rev (dropWhile is_ws s)))"

text \<open>\<^verbatim>\<open>s.replace(/\t/g, ' ')\<close>\<close>

definition replace_tabs :: "jsstring \<Rightarrow> jsstring" where
  "replace_tabs s = map (\<lambda>c. if c = TAB then SP else c) s"

text \<open>
  \<^verbatim>\<open>s.replace(/\r?\n/g, ' ')\<close>: the scan goes left to right; at a CR that is followed
  by LF both are replaced by one space, a LF alone is replaced by a space, and any other
  code unit (a CR alone too) is kept.
\<close>

fun replace_newlines :: "jsstring \<Rightarrow> jsstring" where
  "replace_newlines [] = []"
| "replace_newlines [c] = (if c = LF then [SP] else [c])"
| "replace_newlines (c # d # cs) =
     (if c = CR \<and> d = LF then SP # replace_newlines cs
      else if c = LF then SP # replace_newlines (d # cs)
      else c # replace_newlines (d # cs))"

section \<open>Tabular output: \<^verbatim>\<open>clean\<close>\<close>

text \<open>
  \<^verbatim>\<open>clean\<close> is the same function in parseSubs.ts and in enrichCards.ts:
  \<^verbatim>\<open>(value ?? '').replace(/\t/g, ' ').replace(/\r?\n/g, ' ').trim()\<close>.
  The argument is \<^verbatim>\<open>string | null | undefined\<close>; \<open>None\<close> stands for null and undefined.
\<close>

definition clean :: "jsstring option \<Rightarrow> jsstring" where
  "clean v = trim (replace_newlines (replace_tabs (case v of None \<Rightarrow> [] | Some s \<Rightarrow> s)))"


text \<open>
  \<^verbatim>\<open>s.replace(/\r\n/g, '\n')\<close>, \<^verbatim>\<open>s.replace(/\uFEFF/g, '')\<close> and
  \<^verbatim>\<open>s.replace(/\r/g, '')\<close>.
\<close>

fun replace_crlf :: "jsstring \<Rightarrow> jsstring" where
  "replace_crlf [] = []"
| "replace_crlf [c] = [c]"
| "replace_crlf (c # d # cs) =
     (if c = CR \<and> d = LF then LF # replace_crlf cs else c # replace_crlf (d # cs))"

definition remove_bom :: "jsstring \<Rightarrow> jsstring" where
  "remove_bom s = filter (\<lambda>c. c \<noteq> BOM) s"

definition remove_cr :: "jsstring \<Rightarrow> jsstring" where
  "remove_cr s = filter (\<lambda>c. c \<noteq> CR) s"

text \<open>\<^verbatim>\<open>s.startsWith(p)\<close> and \<^verbatim>\<open>s.includes(p)\<close>.\<close>

definition starts_with :: "jsstring \<Rightarrow> jsstring \<Rightarrow> bool" where
  "starts_with p s \<longleftrightarrow> take (length p) s = p"

fun str_includes :: "jsstring \<Rightarrow> jsstring \<Rightarrow> bool" where
  "str_includes p [] = (p = [])"
| "str_includes p (c # cs) = (starts_with p (c # cs) \<or> str_includes p cs)"

text \<open>
  \<^verbatim>\<open>s.split(sep)\<close> with a string separator: the pieces between the occurrences of
  \<open>sep\<close>, found from the left and without overlap; \<open>cur\<close> is the piece being read.
  With the empty separator JavaScript splits into single code units.
\<close>

fun split_from :: "jsstring \<Rightarrow> jsstring \<Rightarrow> jsstring \<Rightarrow> jsstring list" where
  "split_from sep cur [] = [cur]"
| "split_from sep cur (c # cs) =
     (if starts_with sep (c # cs) then cur # split_from sep [] (drop (length sep - 1) cs)
      else split_from sep (cur @ [c]) cs)"

definition split_str :: "jsstring \<Rightarrow> jsstring \<Rightarrow> jsstring list" where
  "split_str sep s = (if sep = [] then map (\<lambda>c. [c]) s else split_from sep [] s)"

text \<open>
  \<^verbatim>\<open>s.split(/\n{2,}/)\<close>: at each position the greedy pattern matches the whole run of
  line feeds that starts there, when the run has at least two of them; the piece read so
  far is emitted and the scan goes on after the run. A single line feed stays in the
  piece.
\<close>

function split_blank_from :: "jsstring \<Rightarrow> jsstring \<Rightarrow> jsstring list" where
  "split_blank_from cur [] = [cur]"
| "split_blank_from cur (c # cs) =
     (if c = LF \<and> cs \<noteq> [] \<and> hd cs = LF
      then cur # split_blank_from [] (dropWhile (\<lambda>d. d = LF) cs)
      else split_blank_from (cur @ [c]) cs)"
  by pat_completeness auto
termination
  by (relation "measure (\<lambda>(cur, s). length s)")
     (auto simp: less_Suc_eq_le length_dropWhile_le)

definition split_blank_runs :: "jsstring \<Rightarrow> jsstring list" where
  "split_blank_runs s = split_blank_from [] s"

text \<open>\<^verbatim>\<open>xs.join(sep)\<close> and \<^verbatim>\<open>xs.findIndex(p)\<close> (\<open>None\<close> for -1).\<close>

fun join :: "jsstring \<Rightarrow> jsstring list \<Rightarrow> jsstring" where
  "join sep [] = []"
| "join sep [x] = x"
| "join sep (x # y # ys) = x @ sep @ join sep (y # ys)"

fun findIndex :: "('a \<Rightarrow> bool) \<Rightarrow> 'a list \<Rightarrow> nat option" where
  "findIndex p [] = None"
| "findIndex p (x # xs) = (if p x then Some 0 else map_option Suc (findIndex p xs))"

text \<open>\<^verbatim>\<open>xs[i]\<close>, which is undefined out of range.\<close>

definition at :: "'a list \<Rightarrow> nat \<Rightarrow> 'a option" where
  "at xs i = (if i < length xs then Some (xs ! i) else None)"

section \<open>JavaScript numbers\<close>

text \<open>
  A JavaScript number is an IEEE double. The scripts only ever build integers (by
  \<^verbatim>\<open>parseInt\<close>, by counting and by adding small products), test them for NaN and
  finiteness, and turn them into strings; numbers of other shapes come from the JSON
  files. The model keeps exactly what these operations see:
  \<^item> \<open>Integer n\<close> is the double of the integer \<open>n\<close>, for \<open>\<bar>n\<bar> \<le> 2^53\<close>, where every
    integer is a double of its own (-0 is \<open>Integer 0\<close>: the scripts cannot tell it from
    0, its string is \<^verbatim>\<open>0\<close>);
  \<^item> \<open>Double s\<close> is any other finite double, named by its \<^verbatim>\<open>Number::toString\<close>
    rendering \<open>s\<close> (such as \<^verbatim>\<open>5.9\<close> or \<^verbatim>\<open>1e+21\<close>), which tells finite doubles apart;
  \<^item> \<open>NaN\<close>, \<open>Infinity\<close>, \<open>NegInfinity\<close>.
  The double that the runtime gives a mathematical integer beyond \<open>2^53\<close> (a rounded
  value or an infinity; ECMAScript leaves digits after the 20th to the implementation) is
  a parameter \<open>big\<close> of the functions that parse numbers.
\<close>

datatype jsnum = NaN | Infinity | NegInfinity | Integer int | Double jsstring

type_synonym rounding = "int \<Rightarrow> jsnum"

definition number_of :: "rounding \<Rightarrow> int \<Rightarrow> jsnum" where
  "number_of big n = (if \<bar>n\<bar> \<le> 2 ^ 53 then Integer n else big n)"

fun negate :: "jsnum \<Rightarrow> jsnum" where
  "negate NaN = NaN"
| "negate Infinity = NegInfinity"
| "negate NegInfinity = Infinity"
| "negate (Integer n) = Integer (- n)"
| "negate (Double s) = (case s of c # cs \<Rightarrow> if c = 0x2D then Double cs else Double (0x2D # s)
     | [] \<Rightarrow> Double [0x2D])"

fun isFinite :: "jsnum \<Rightarrow> bool" where
  "isFinite (Integer n) = True"
| "isFinite (Double s) = True"
| "isFinite _ = False"

fun isNaN :: "jsnum \<Rightarrow> bool" where
  "isNaN NaN = True"
| "isNaN _ = False"

definition is_digit :: "jschar \<Rightarrow> bool" where
  "is_digit c \<longleftrightarrow> 0x30 \<le> c \<and> c \<le> 0x39"

definition digit_val :: "jschar \<Rightarrow> nat" where
  "digit_val c = unat c - 48"

definition digits_val :: "jsstring \<Rightarrow> int" where
  "digits_val ds = foldl (\<lambda>a c. 10 * a + int (digit_val c)) 0 ds"

text \<open>
  \<^verbatim>\<open>Number.parseInt(s, 10)\<close>: leading white space is skipped, one sign is read, then
  the longest run of decimal digits; no digit gives NaN; anything after the digits is
  ignored.
\<close>

definition parseInt10 :: "rounding \<Rightarrow> jsstring \<Rightarrow> jsnum" where
  "parseInt10 big s =
     (let t = dropWhile is_ws s;
          neg = (t \<noteq> [] \<and> hd t = 0x2D);
          u = (if t \<noteq> [] \<and> (hd t = 0x2B \<or> hd t = 0x2D) then tl t else t);
          z = takeWhile is_digit u
      in if z = [] then NaN
         else if neg then negate (number_of big (digits_val z))
         else number_of big (digits_val z))"

text \<open>\<^verbatim>\<open>String(n)\<close> for a number: decimal digits for an integer.\<close>

fun dec_nat :: "nat \<Rightarrow> jsstring" where
  "dec_nat n = (if n < 10 then [0x30 + of_nat n] else dec_nat (n div 10) @ [0x30 + of_nat (n mod 10)])"

declare dec_nat.simps [simp del]

definition dec_int :: "int \<Rightarrow> jsstring" where
  "dec_int n = (if n < 0 then 0x2D # dec_nat (nat (- n)) else dec_nat (nat n))"

fun String_number :: "jsnum \<Rightarrow> jsstring" where
  "String_number NaN = js ''NaN''"
| "String_number Infinity = js ''Infinity''"
| "String_number NegInfinity = js ''-Infinity''"
| "String_number (Integer n) = dec_int n"
| "String_number (Double s) = s"

section \<open>parseSubs.ts\<close>

text \<open>
  The interfaces \<^verbatim>\<open>SubtitleEntry\<close> and \<^verbatim>\<open>Card\<close> of parseSubs.ts. \<open>None\<close> is null.
  \<open>index\<close> and \<open>id\<close> are counts of array elements, hence naturals; the fields of \<^verbatim>\<open>Card\<close> carry the prefix \<open>card_\<close> to keep them apart
  from those of \<^verbatim>\<open>CardRecord\<close> in enrichCards.ts.
\<close>

record SubtitleEntry =
  index :: nat
  rawId :: jsnum
  start :: "jsstring option"
  "end" :: "jsstring option"
  entry_startMs :: "int option"
  entry_endMs :: "int option"
  "text" :: jsstring

record Card =
  card_id :: nat
  card_subtitleId :: jsnum
  card_sentence :: jsstring
  card_translation :: jsstring
  card_romaji :: jsstring
  card_furigana :: jsstring
  card_startTime :: "jsstring option"
  card_endTime :: "jsstring option"
  card_startMs :: "int option"
  card_endMs :: "int option"

text \<open>
  \<^verbatim>\<open>timecode.match(/(\d{2}):(\d{2}):(\d{2}),(\d{3})/)\<close>. The pattern has no anchor: the
  match is the leftmost place in the string where twelve code units have the shape
  \<^verbatim>\<open>dd:dd:dd,ddd\<close>; \<open>match_timecode_here\<close> tries one place and gives the four groups.
\<close>

fun match_timecode_here :: "jsstring \<Rightarrow> (jsstring \<times> jsstring \<times> jsstring \<times> jsstring) option" where
  "match_timecode_here (h1 # h2 # c1 # m1 # m2 # c2 # s1 # s2 # c3 # f1 # f2 # f3 # rest) =
     (if is_digit h1 \<and> is_digit h2 \<and> c1 = 0x3A \<and> is_digit m1 \<and> is_digit m2 \<and> c2 = 0x3A \<and>
         is_digit s1 \<and> is_digit s2 \<and> c3 = 0x2C \<and> is_digit f1 \<and> is_digit f2 \<and> is_digit f3
      then Some ([h1, h2], [m1, m2], [s1, s2], [f1, f2, f3]) else None)"
| "match_timecode_here _ = None"

fun match_timecode :: "jsstring \<Rightarrow> (jsstring \<times> jsstring \<times> jsstring \<times> jsstring) option" where
  "match_timecode [] = None"
| "match_timecode (c # cs) =
     (case match_timecode_here (c # cs) of Some g \<Rightarrow> Some g | None \<Rightarrow> match_timecode cs)"

text \<open>\<^verbatim>\<open>timecodeToMs\<close>; \<^verbatim>\<open>Number(hh)\<close> of a group of digits is its decimal value.\<close>

definition timecodeToMs :: "jsstring option \<Rightarrow> int option" where
  "timecodeToMs timecode =
     (case timecode of None \<Rightarrow> None
      | Some tc \<Rightarrow>
          if tc = [] then None
          else (case match_timecode tc of None \<Rightarrow> None
            | Some (hh, mm, ss, ms) \<Rightarrow>
                Some (digits_val hh * 3600 * 1000 + digits_val mm * 60 * 1000 +
                      digits_val ss * 1000 + digits_val ms)))"

text \<open>
  The body of the loop of \<^verbatim>\<open>parseSrt\<close> for one block, given the number \<open>n\<close> of
  entries produced so far (\<^verbatim>\<open>entries.length\<close>): \<open>None\<close> when the block is skipped by
  one of the two \<^verbatim>\<open>continue\<close>, the entry pushed otherwise.
\<close>

definition parse_block :: "rounding \<Rightarrow> nat \<Rightarrow> jsstring \<Rightarrow> SubtitleEntry option" where
  "parse_block big n block =
     (let lines = split_str [LF] block in
      case findIndex (\<lambda>line. length (trim line) > 0) lines of
        None \<Rightarrow> None
      | Some meaningfulStart \<Rightarrow>
          let maybeId = parseInt10 big (trim (lines ! meaningfulStart));
              (rawId, cursor) =
                (if isFinite maybeId then (maybeId, meaningfulStart + 1)
                 else (Integer (int n + 1), meaningfulStart));
              (startRaw, endRaw, cursor) =
                (if cursor < length lines \<and> str_includes (js ''-->'') (lines ! cursor)
                 then let parts = map trim (split_str (js ''-->'') (lines ! cursor))
                      in (at parts 0, at parts 1, cursor + 1)
                 else (None, None, cursor));
              textLines = filter (\<lambda>line. line \<noteq> [])
                            (map (\<lambda>line. trim (remove_cr line)) (drop cursor lines))
          in if textLines = [] then None
             else Some \<lparr> index = n + 1, rawId = rawId, start = startRaw, end = endRaw,
                         entry_startMs = timecodeToMs startRaw,
                         entry_endMs = timecodeToMs endRaw,
                         text = join [SP] textLines \<rparr>)"

fun parse_blocks :: "rounding \<Rightarrow> SubtitleEntry list \<Rightarrow> jsstring list \<Rightarrow> SubtitleEntry list" where
  "parse_blocks big entries [] = entries"
| "parse_blocks big entries (block # blocks) =
     (case parse_block big (length entries) block of
        None \<Rightarrow> parse_blocks big entries blocks
      | Some entry \<Rightarrow> parse_blocks big (entries @ [entry]) blocks)"

definition normalized :: "jsstring \<Rightarrow> jsstring" where
  "normalized content = remove_bom (replace_crlf content)"

definition parseSrt :: "rounding \<Rightarrow> jsstring \<Rightarrow> SubtitleEntry list" where
  "parseSrt big content = parse_blocks big [] (split_blank_runs (normalized content))"

definition buildCards :: "SubtitleEntry list \<Rightarrow> Card list" where
  "buildCards subtitles =
     map (\<lambda>(idx, entry).
       \<lparr> card_id = idx + 1, card_subtitleId = rawId entry, card_sentence = text entry,
         card_translation = [], card_romaji = [], card_furigana = [],
         card_startTime = start entry, card_endTime = end entry,
         card_startMs = entry_startMs entry, card_endMs = entry_endMs entry \<rparr>)
       (enumerate 0 subtitles)"


text \<open>
  The text lines that the loop body of \<^verbatim>\<open>parseSrt\<close> finds in a block (the value of
  \<^verbatim>\<open>textLines\<close>, and no line for a block that has no non-blank line): a block yields
  non-empty text when this list is not empty. The count of entries plays no part in it.
\<close>

definition text_lines :: "rounding \<Rightarrow> jsstring \<Rightarrow> jsstring list" where
  "text_lines big block =
     (let lines = split_str [LF] block in
      case findIndex (\<lambda>line. length (trim line) > 0) lines of
        None \<Rightarrow> []
      | Some meaningfulStart \<Rightarrow>
          let cursor = (if isFinite (parseInt10 big (trim (lines ! meaningfulStart)))
                        then meaningfulStart + 1 else meaningfulStart);
              cursor = (if cursor < length lines \<and> str_includes (js ''-->'') (lines ! cursor)
                        then cursor + 1 else cursor)
          in filter (\<lambda>line. line \<noteq> [])
               (map (\<lambda>line. trim (remove_cr line)) (drop cursor lines)))"


text \<open>
  The format \<^verbatim>\<open>HH:MM:SS,mmm\<close> in the words of the specification: twelve code units,
  fixed-width decimal digits with the separators in their places; and the number of
  milliseconds that such a string denotes.
\<close>

definition is_timecode :: "jsstring \<Rightarrow> bool" where
  "is_timecode s \<longleftrightarrow>
     length s = 12 \<and> s ! 2 = 0x3A \<and> s ! 5 = 0x3A \<and> s ! 8 = 0x2C \<and>
     list_all (\<lambda>i. is_digit (s ! i)) [0, 1, 3, 4, 6, 7, 9, 10, 11]"

definition timecode_ms :: "jsstring \<Rightarrow> int" where
  "timecode_ms s =
     digits_val (take 2 s) * 3600000 + digits_val (take 2 (drop 3 s)) * 60000 +
     digits_val (take 2 (drop 6 s)) * 1000 + digits_val (take 3 (drop 9 s))"

text \<open>
  A rounding with which to run the examples. It is consulted only for integers beyond
  \<open>2^53\<close>, which no example contains.
\<close>

definition example_rounding :: rounding where
  "example_rounding n = (if n < 0 then NegInfinity else Infinity)"

text \<open>
  The text of a caption block in the words of the specification (4.2, steps 3 to 6):
  the leading blank lines are skipped; a first line that is an integer (an optional
  sign and decimal digits, nothing else) is the caption number; a next line that
  contains the arrow is the time range; the remaining non-blank lines, trimmed, are the
  text. A block yields non-empty text when this list is not empty.
\<close>

definition is_integer_line :: "jsstring \<Rightarrow> bool" where
  "is_integer_line line =
     (let t = trim line;
          digits = (if t \<noteq> [] \<and> (hd t = 0x2B \<or> hd t = 0x2D) then tl t else t)
      in digits \<noteq> [] \<and> list_all is_digit digits)"

definition spec_text_lines :: "jsstring \<Rightarrow> jsstring list" where
  "spec_text_lines block =
     (let lines = dropWhile (\<lambda>line. trim line = []) (split_str [LF] block);
          lines = (if lines \<noteq> [] \<and> is_integer_line (hd lines) then tl lines else lines);
          lines = (if lines \<noteq> [] \<and> str_includes (js ''-->'') (hd lines) then tl lines else lines)
      in filter (\<lambda>line. line \<noteq> []) (map trim lines))"


section \<open>enrichCards.ts: data\<close>

text \<open>
  The interfaces of enrichCards.ts. \<open>None\<close> stands for null, for undefined and for an
  absent optional property alike (the script tests them with \<^verbatim>\<open>!= null\<close>, \<^verbatim>\<open>??\<close>,
  \<^verbatim>\<open>||\<close> and \<^verbatim>\<open>?.\<close>, which do not tell them apart). The field \<^verbatim>\<open>id\<close> of a card is
  \<open>id'\<close>; the fields of \<^verbatim>\<open>DictionaryEntry\<close>, of kuromoji's \<^verbatim>\<open>IpadicFeatures\<close> and of
  \<^verbatim>\<open>TranslationEntry\<close> carry a prefix where the name is taken.
\<close>

record DictionaryEntry =
  dict_lemma :: jsstring
  dict_reading :: "jsstring option"
  dict_pos :: "jsstring option"
  dict_meanings :: "jsstring list option"

record IpadicFeatures =
  surface_form :: jsstring
  basic_form :: jsstring
  ipa_reading :: "jsstring option"
  ipa_pos :: jsstring
  pos_detail_1 :: jsstring
  pos_detail_2 :: jsstring
  pos_detail_3 :: jsstring

record TokenBreakdown =
  surface :: jsstring
  "lemma" :: jsstring
  reading :: "jsstring option"
  pos :: jsstring
  meanings :: "jsstring list option"

text \<open>
  \<^verbatim>\<open>CardRecord\<close> has the index signature \<^verbatim>\<open>[key: string]: unknown\<close>: a card read from
  the JSON file may carry any further fields. They are the extension part \<open>more\<close> of the
  record, so the functions on cards are stated for every record scheme.
\<close>

record CardRecord =
  id' :: jsnum
  subtitleId :: "jsnum option"
  sentence :: "jsstring option"
  translation :: "jsstring option"
  romaji :: "jsstring option"
  furigana :: "jsstring option"
  startTime :: "jsstring option"
  endTime :: "jsstring option"
  startMs :: "jsnum option"
  endMs :: "jsnum option"
  tokens :: "TokenBreakdown list option"

text \<open>The type \<^verbatim>\<open>number | string\<close> of the identifiers of a translation entry.\<close>

datatype idval = IdNum jsnum | IdStr jsstring

record TranslationEntry =
  entry_id :: "idval option"
  entry_subtitleId :: "idval option"
  entry_sentence :: "jsstring option"
  entry_translation :: jsstring

record TranslationState =
  byId :: "jsstring \<rightharpoonup> jsstring"
  bySubtitleId :: "jsstring \<rightharpoonup> jsstring"
  bySentence :: "jsstring \<rightharpoonup> jsstring"
  addedEntries :: "TranslationEntry list"
  initialEntries :: "TranslationEntry list"
  sourcePath :: "jsstring option"


text \<open>
  A value read by \<^verbatim>\<open>JSON.parse\<close>. The properties of an object are listed in the order of
  \<^verbatim>\<open>Object.entries\<close>, each key once.
\<close>

datatype json =
  JNull | JBool bool | JNum jsnum | JStr jsstring | JArr "json list"
  | JObj "(jsstring \<times> json) list"

text \<open>
  \<^verbatim>\<open>String(value)\<close>: an array is the comma-joined strings of its elements, with the
  empty string for null; an object is \<^verbatim>\<open>[object Object]\<close>.
\<close>

fun String_json :: "json \<Rightarrow> jsstring" where
  "String_json JNull = js ''null''"
| "String_json (JBool b) = (if b then js ''true'' else js ''false'')"
| "String_json (JNum n) = String_number n"
| "String_json (JStr s) = s"
| "String_json (JArr xs) =
     join (js '','') (map (\<lambda>x. if x = JNull then [] else String_json x) xs)"
| "String_json (JObj props) = js ''[object Object]''"

fun String_idval :: "idval \<Rightarrow> jsstring" where
  "String_idval (IdNum n) = String_number n"
| "String_idval (IdStr s) = s"

text \<open>\<^verbatim>\<open>entry[key]\<close> on a parsed object, and \<^verbatim>\<open>value || ''\<close> on a string or null.\<close>

definition get_prop :: "(jsstring \<times> json) list \<Rightarrow> string \<Rightarrow> json option" where
  "get_prop props key = map_of props (js key)"

definition or_empty :: "jsstring option \<Rightarrow> jsstring" where
  "or_empty v = (case v of None \<Rightarrow> [] | Some s \<Rightarrow> s)"

section \<open>enrichCards.ts: the lexical enricher\<close>

definition POS_MAP :: "(jsstring \<times> jsstring) list" where
  "POS_MAP = [
    ([0x540D, 0x8A5E], js ''noun''),
    ([0x52D5, 0x8A5E], js ''verb''),
    ([0x5F62, 0x5BB9, 0x8A5E], js ''adjective''),
    ([0x526F, 0x8A5E], js ''adverb''),
    ([0x52A9, 0x8A5E], js ''particle''),
    ([0x52A9, 0x52D5, 0x8A5E], js ''auxiliary-verb''),
    ([0x8A18, 0x53F7], js ''symbol''),
    ([0x9023, 0x4F53, 0x8A5E], js ''prenoun-adjectival''),
    ([0x611F, 0x52D5, 0x8A5E], js ''interjection''),
    ([0x63A5, 0x7D9A, 0x8A5E], js ''conjunction''),
    ([0x63A5, 0x982D, 0x8A5E], js ''prefix''),
    ([0x305D, 0x306E, 0x4ED6], js ''other''),
    ([0x30D5, 0x30A3, 0x30E9, 0x30FC], js ''filler''),
    ([0x4E00, 0x822C], js ''general''),
    ([0x56FA, 0x6709, 0x540D, 0x8A5E], js ''proper-noun''),
    ([0x30B5, 0x5909, 0x63A5, 0x7D9A], js ''suru-verb''),
    ([0x81EA, 0x7ACB], js ''independent''),
    ([0x975E, 0x81EA, 0x7ACB], js ''non-independent''),
    ([0x5F62, 0x5BB9, 0x52D5, 0x8A5E, 0x8A9E, 0x5E79], js ''na-adj-stem''),
    ([0x6570], js ''number''),
    ([0x52A9, 0x6570, 0x8A5E], js ''counter''),
    ([0x4FC2, 0x52A9, 0x8A5E], js ''binding-particle''),
    ([0x683C, 0x52A9, 0x8A5E], js ''case-particle''),
    ([0x526F, 0x52A9, 0x8A5E], js ''adverbial-particle''),
    ([0x4E26, 0x7ACB, 0x52A9, 0x8A5E], js ''parallel-particle''),
    ([0x7D42, 0x52A9, 0x8A5E], js ''sentence-ending-particle''),
    ([0x9023, 0x4F53, 0x5316], js ''attributive''),
    ([0x63A5, 0x7D9A, 0x52A9, 0x8A5E], js ''conjunctive-particle''),
    ([0x611F, 0x52D5, 0x8A5E, 0x8A9E, 0x5E79], js ''interjection-stem''),
    ([0x62EC, 0x5F27, 0x958B], js ''open-bracket''),
    ([0x62EC, 0x5F27, 0x9589], js ''close-bracket''),
    ([0x53E5, 0x70B9], js ''period''),
    ([0x8AAD, 0x70B9], js ''comma''),
    ([0x7A7A, 0x767D], js ''whitespace''),
    ([0x8A18, 0x53F7, 0x4E00, 0x822C], js ''symbol-general''),
    ([0x4EE3, 0x540D, 0x8A5E], js ''pronoun''),
    ([0x526F, 0x8A5E, 0x53EF, 0x80FD], js ''adverbial''),
    ([0x9023, 0x8A9E], js ''expression''),
    ([0x8A9E, 0x5E79], js ''stem''),
    ([0x30C6, 0x5F62], js ''te-form''),
    ([0x30BF, 0x5F62], js ''ta-form'')]"

text \<open>\<^verbatim>\<open>text.replace(/[\u30a1-\u30f6]/g, (char) => String.fromCharCode(char.charCodeAt(0) - 0x60))\<close>\<close>

definition katakanaToHiragana :: "jsstring \<Rightarrow> jsstring" where
  "katakanaToHiragana s = map (\<lambda>c. if 0x30A1 \<le> c \<and> c \<le> 0x30F6 then c - 0x60 else c) s"

text \<open>
  The table is an object literal, so \<^verbatim>\<open>POS_MAP[trimmed]\<close> also finds the members that
  every object inherits from \<^verbatim>\<open>Object.prototype\<close>. Their values are functions, and
  \<^verbatim>\<open>__proto__\<close> is the prototype object; \<^verbatim>\<open>join\<close> turns them into the strings
  listed here (as Node prints a native function).
\<close>

definition native_function :: "string \<Rightarrow> jsstring" where
  "native_function name = js ''function '' @ js name @ js ''() { [native code] }''"

definition Object_prototype :: "(jsstring \<times> jsstring) list" where
  "Object_prototype = [
    (js ''constructor'', native_function ''Object''),
    (js ''__defineGetter__'', native_function ''__defineGetter__''),
    (js ''__defineSetter__'', native_function ''__defineSetter__''),
    (js ''hasOwnProperty'', native_function ''hasOwnProperty''),
    (js ''__lookupGetter__'', native_function ''__lookupGetter__''),
    (js ''__lookupSetter__'', native_function ''__lookupSetter__''),
    (js ''isPrototypeOf'', native_function ''isPrototypeOf''),
    (js ''propertyIsEnumerable'', native_function ''propertyIsEnumerable''),
    (js ''toString'', native_function ''toString''),
    (js ''valueOf'', native_function ''valueOf''),
    (js ''__proto__'', js ''[object Object]''),
    (js ''toLocaleString'', native_function ''toLocaleString'')]"

text \<open>\<^verbatim>\<open>POS_MAP[key] ?? key\<close>, as a string in the joined label.\<close>

definition pos_lookup :: "jsstring \<Rightarrow> jsstring" where
  "pos_lookup key =
     (case map_of POS_MAP key of
        Some t \<Rightarrow> t
      | None \<Rightarrow> (case map_of Object_prototype key of Some member \<Rightarrow> member | None \<Rightarrow> key))"

text \<open>
  \<^verbatim>\<open>translatePosPart\<close>: the part is split at the full-width solidus U+FF0F; each
  segment is trimmed and looked up.
\<close>

definition translatePosPart :: "jsstring option \<Rightarrow> jsstring option" where
  "translatePosPart part =
     (case part of None \<Rightarrow> None
      | Some p \<Rightarrow>
          if p = [] \<or> p = js ''*'' then None
          else Some (join (js ''/'')
                 (map (\<lambda>segment. let trimmed = trim segment in pos_lookup trimmed)
                      (split_str [0xFF0F] p))))"

definition buildPosLabel :: "IpadicFeatures \<Rightarrow> jsstring" where
  "buildPosLabel token =
     join (js ''-'')
       (concat (map (\<lambda>part. case translatePosPart (Some part) of
                               None \<Rightarrow> [] | Some t \<Rightarrow> if t = [] then [] else [t])
                    [ipa_pos token, pos_detail_1 token, pos_detail_2 token, pos_detail_3 token]))"

definition normalizeToken :: "(jsstring \<rightharpoonup> DictionaryEntry) \<Rightarrow> IpadicFeatures \<Rightarrow> TokenBreakdown" where
  "normalizeToken dictionary token =
     (let lemma = (if basic_form token \<noteq> [] \<and> basic_form token \<noteq> js ''*''
                   then basic_form token else surface_form token);
          dictEntry = dictionary lemma
      in \<lparr> surface = surface_form token,
           lemma = lemma,
           reading = (case ipa_reading token of
                        None \<Rightarrow> None
                      | Some r \<Rightarrow> if r \<noteq> [] \<and> r \<noteq> js ''*'' then Some (katakanaToHiragana r) else None),
           pos = buildPosLabel token,
           meanings = (case dictEntry of None \<Rightarrow> None | Some d \<Rightarrow> dict_meanings d) \<rparr>)"

text \<open>
  \<^verbatim>\<open>buildLiteralTranslation\<close>: the first gloss of a token when there is one and it is
  not the empty string, its surface otherwise.
\<close>

definition buildLiteralTranslation :: "TokenBreakdown list \<Rightarrow> jsstring" where
  "buildLiteralTranslation toks =
     (if toks = [] then []
      else join [SP]
             (map (\<lambda>token. case meanings token of
                              Some (m # ms) \<Rightarrow> if m \<noteq> [] then m else surface token
                            | _ \<Rightarrow> surface token) toks))"

section \<open>enrichCards.ts: translation hints\<close>

text \<open>
  \<^verbatim>\<open>normalizeNumeric\<close>: a finite number is kept as it is; any other value is turned into
  a string and parsed.
\<close>

definition normalizeNumeric :: "rounding \<Rightarrow> json \<Rightarrow> idval" where
  "normalizeNumeric big value =
     (case value of
        JNum n \<Rightarrow>
          if isFinite n then IdNum n
          else (let parsed = parseInt10 big (String_json value)
                in if isNaN parsed then IdStr (String_json value) else IdNum parsed)
      | _ \<Rightarrow>
          (let parsed = parseInt10 big (String_json value)
           in if isNaN parsed then IdStr (String_json value) else IdNum parsed))"

text \<open>
  \<^verbatim>\<open>sanitizeTranslationEntry\<close>. Only an object can pass the test
  \<^verbatim>\<open>typeof entry === 'object'\<close> and have a string for \<^verbatim>\<open>translation\<close>; an array passes
  the first test and fails the second.
\<close>

definition sanitizeTranslationEntry :: "rounding \<Rightarrow> json \<Rightarrow> TranslationEntry option" where
  "sanitizeTranslationEntry big entry =
     (case entry of
        JObj maybe \<Rightarrow>
          (case get_prop maybe ''translation'' of
             Some (JStr t) \<Rightarrow>
               let translation = trim t in
               if translation = [] then None
               else
                 let sentence =
                       (case get_prop maybe ''sentence'' of
                          Some (JStr s) \<Rightarrow> if trim s \<noteq> [] then Some (trim s) else None
                        | _ \<Rightarrow> None);
                     normalizedId =
                       (case get_prop maybe ''id'' of
                          None \<Rightarrow> None
                        | Some v \<Rightarrow> if v = JNull \<or> v = JStr [] then None
                                    else Some (normalizeNumeric big v));
                     normalizedSubtitleId =
                       (case get_prop maybe ''subtitleId'' of
                          None \<Rightarrow> None
                        | Some v \<Rightarrow> if v = JNull \<or> v = JStr [] then None
                                    else Some (normalizeNumeric big v))
                 in Some \<lparr> entry_id = normalizedId, entry_subtitleId = normalizedSubtitleId,
                             entry_sentence = sentence, entry_translation = translation \<rparr>
           | _ \<Rightarrow> None)
      | _ \<Rightarrow> None)"

text \<open>The closure \<^verbatim>\<open>registerEntry\<close> of \<^verbatim>\<open>loadTranslationHints\<close>, on the state it fills.\<close>

definition registerEntry :: "rounding \<Rightarrow> json \<Rightarrow> TranslationState \<Rightarrow> TranslationState" where
  "registerEntry big entryLike st =
     (case sanitizeTranslationEntry big entryLike of
        None \<Rightarrow> st
      | Some safeEntry \<Rightarrow>
          st \<lparr> byId := (case entry_id safeEntry of
                          Some i \<Rightarrow> (byId st)(String_idval i \<mapsto> entry_translation safeEntry)
                        | None \<Rightarrow> byId st),
               bySubtitleId := (case entry_subtitleId safeEntry of
                          Some i \<Rightarrow> (bySubtitleId st)(String_idval i \<mapsto> entry_translation safeEntry)
                        | None \<Rightarrow> bySubtitleId st),
               bySentence := (case entry_sentence safeEntry of
                          Some s \<Rightarrow> if s \<noteq> [] then (bySentence st)(s \<mapsto> entry_translation safeEntry)
                                    else bySentence st
                        | None \<Rightarrow> bySentence st),
               initialEntries := initialEntries st @ [safeEntry] \<rparr>)"

text \<open>
  The object literal \<^verbatim>\<open>{ id: key, ...value }\<close>: the properties of \<open>value\<close> are assigned
  after \<^verbatim>\<open>id\<close> and replace it when \<open>value\<close> has an \<^verbatim>\<open>id\<close> of its own. The properties
  of an array are its indices.
\<close>

definition spread :: "(jsstring \<times> json) list \<Rightarrow> (jsstring \<times> json) list \<Rightarrow> (jsstring \<times> json) list" where
  "spread obj props = fold (\<lambda>(k, v). AList.update k v) props obj"

definition array_props :: "json list \<Rightarrow> (jsstring \<times> json) list" where
  "array_props xs = map (\<lambda>(i, x). (dec_nat i, x)) (enumerate 0 xs)"

text \<open>
  What \<^verbatim>\<open>loadTranslationHints\<close> finds at its path: no path was given, no file is
  there, or the file holds a JSON value.
\<close>

datatype hint_file = NoPath | NoFile jsstring | HintFile jsstring json

definition empty_state :: "jsstring option \<Rightarrow> TranslationState" where
  "empty_state path =
     \<lparr> byId = Map.empty, bySubtitleId = Map.empty, bySentence = Map.empty,
       addedEntries = [], initialEntries = [], sourcePath = path \<rparr>"

text \<open>
  \<^verbatim>\<open>loadTranslationHints\<close>, with the warning it prints when the file is missing. An
  array registers its elements; an object registers, for each key, the string or the
  object that is its value, with the key as \<^verbatim>\<open>id\<close>.
\<close>

definition loadTranslationHints :: "rounding \<Rightarrow> hint_file \<Rightarrow> TranslationState \<times> jsstring list" where
  "loadTranslationHints big file =
     (case file of
        NoPath \<Rightarrow> (empty_state None, [])
      | NoFile path \<Rightarrow>
          (empty_state (Some path),
           [js ''Translation hint file not found at '' @ path @ js ''. Skipping translations.''])
      | HintFile path raw \<Rightarrow>
          (case raw of
             JArr xs \<Rightarrow> (fold (registerEntry big) xs (empty_state (Some path)), [])
           | JObj props \<Rightarrow>
               (fold (\<lambda>(key, value) st.
                        case value of
                          JStr s \<Rightarrow>
                            registerEntry big
                              (JObj [(js ''id'', JStr key), (js ''translation'', value)]) st
                        | JObj vs \<Rightarrow>
                            registerEntry big (JObj (spread [(js ''id'', JStr key)] vs)) st
                        | JArr xs \<Rightarrow>
                            registerEntry big
                              (JObj (spread [(js ''id'', JStr key)] (array_props xs))) st
                        | _ \<Rightarrow> st)
                     props (empty_state (Some path)), [])
           | _ \<Rightarrow> (empty_state (Some path), [])))"

text \<open>\<^verbatim>\<open>pickTranslation\<close>: the three hint lookups, in this order.\<close>

definition pickTranslation :: "'a CardRecord_scheme \<Rightarrow> TranslationState \<Rightarrow> jsstring option" where
  "pickTranslation card' translations =
     (if byId translations (String_number (id' card')) \<noteq> None
      then byId translations (String_number (id' card'))
      else if subtitleId card' \<noteq> None \<and>
              bySubtitleId translations (String_number (the (subtitleId card'))) \<noteq> None
      then bySubtitleId translations (String_number (the (subtitleId card')))
      else let normalizedSentence = trim (or_empty (sentence card'))
           in if normalizedSentence \<noteq> [] \<and> bySentence translations normalizedSentence \<noteq> None
              then bySentence translations normalizedSentence
              else None)"

text \<open>
  \<^verbatim>\<open>registerGeneratedTranslation\<close>. The entry it appends goes through
  \<^verbatim>\<open>sanitizeTranslationEntry\<close>, as an object built from the card.
\<close>

definition registerGeneratedTranslation ::
  "rounding \<Rightarrow> TranslationState \<Rightarrow> 'a CardRecord_scheme \<Rightarrow> jsstring \<Rightarrow> TranslationState" where
  "registerGeneratedTranslation big translations card' translation' =
     (let normalizedSentence =
            (if trim (or_empty (sentence card')) \<noteq> [] then Some (trim (or_empty (sentence card')))
             else None);
          st = translations \<lparr> byId := (byId translations)(String_number (id' card') \<mapsto> translation') \<rparr>;
          st = (case subtitleId card' of
                  Some sid \<Rightarrow> st \<lparr> bySubtitleId := (bySubtitleId st)(String_number sid \<mapsto> translation') \<rparr>
                | None \<Rightarrow> st);
          st = (case normalizedSentence of
                  Some s \<Rightarrow> st \<lparr> bySentence := (bySentence st)(s \<mapsto> translation') \<rparr>
                | None \<Rightarrow> st);
          entry = sanitizeTranslationEntry big
                    (JObj [(js ''id'', JNum (id' card')),
                           (js ''subtitleId'', (case subtitleId card' of Some sid \<Rightarrow> JNum sid | None \<Rightarrow> JNull)),
                           (js ''sentence'', (case normalizedSentence of Some s \<Rightarrow> JStr s | None \<Rightarrow> JNull)),
                           (js ''translation'', JStr translation')])
      in case entry of
           Some e \<Rightarrow> st \<lparr> addedEntries := addedEntries st @ [e] \<rparr>
         | None \<Rightarrow> st)"


section \<open>enrichCards.ts: the translation resolver\<close>

text \<open>
  The external translation service. \<^verbatim>\<open>translator.translateText\<close> is a call out of the
  program: it is given the request and the state \<open>'w\<close> of the outside world, and either
  throws (\<open>Failure\<close>, with the message that the handler prints) or returns one result or
  an array of results, whose \<^verbatim>\<open>text\<close> may be missing.
\<close>

datatype deepl_response =
  Failure jsstring | TextResult "jsstring option" | TextResults "jsstring option list"

record deepl_request =
  request_text :: jsstring
  request_formality :: "jsstring option"
  request_glossary :: "jsstring option"

type_synonym 'w deepl_client = "deepl_request \<Rightarrow> 'w \<Rightarrow> deepl_response \<times> 'w"

text \<open>
  \<^verbatim>\<open>TranslatorFn\<close>: the promise resolves to a string or to null; the model adds the
  warnings printed meanwhile and the new state of the outside world.
\<close>

type_synonym ('a, 'w) TranslatorFn =
  "'a CardRecord_scheme \<Rightarrow> 'w \<Rightarrow> jsstring option \<times> jsstring list \<times> 'w"



text \<open>The function that \<^verbatim>\<open>createDeepLTranslator\<close> returns, with its try and catch.\<close>

definition deepl_translator ::
  "'w deepl_client \<Rightarrow> jsstring \<Rightarrow> jsstring option \<Rightarrow> ('a, 'w) TranslatorFn" where
  "deepl_translator client normalizedFormality glossaryId card' w =
     (let sentence = trim (or_empty (sentence card')) in
      if sentence = [] then (None, [], w)
      else
        (case client \<lparr> request_text = sentence,
                       request_formality = (if normalizedFormality = js ''default'' then None
                                            else Some normalizedFormality),
                       request_glossary = glossaryId \<rparr> w of
           (Failure message, w') \<Rightarrow>
             (None,
              [js ''DeepL translation failed for subtitle '' @
               String_number (case subtitleId card' of Some sid \<Rightarrow> sid | None \<Rightarrow> id' card') @
               js '': '' @ message],
              w')
         | (TextResult t, w') \<Rightarrow> (map_option trim t, [], w')
         | (TextResults ts, w') \<Rightarrow>
             ((case ts of [] \<Rightarrow> None | t # _ \<Rightarrow> map_option trim t), [], w')))"


text \<open>The truth value of a \<^verbatim>\<open>string | null\<close>: null and the empty string are false.\<close>

definition truthy :: "jsstring option \<Rightarrow> bool" where
  "truthy v \<longleftrightarrow> v \<noteq> None \<and> v \<noteq> Some []"

datatype translation_source = SrcHint | SrcCard | SrcLiteral | SrcDeepl

text \<open>
  The first part of \<^verbatim>\<open>enrichCard\<close> that sets \<^verbatim>\<open>translation\<close> and
  \<^verbatim>\<open>translationSource\<close>, before the external translator is considered: the hint, the
  card's own translation, the literal translation.
\<close>

definition resolve_tiers ::
  "'a CardRecord_scheme \<Rightarrow> TranslationState \<Rightarrow> bool \<Rightarrow> bool \<Rightarrow> TokenBreakdown list \<Rightarrow>
   jsstring option \<times> translation_source option" where
  "resolve_tiers card' translations translatorEnabled replace breakdown =
     (let cardTranslation = trim (or_empty (translation card'));
          translationSource = None;
          translation = pickTranslation card' translations;
          translationSource = (if truthy translation then Some SrcHint else translationSource);
          (translation, translationSource) =
            (if \<not> truthy translation \<and> cardTranslation \<noteq> [] \<and> (\<not> translatorEnabled \<or> \<not> replace)
             then (Some cardTranslation, Some SrcCard)
             else (translation, translationSource));
          (translation, translationSource) =
            (if \<not> truthy translation
             then (Some (buildLiteralTranslation breakdown), Some SrcLiteral)
             else (translation, translationSource))
      in (translation, translationSource))"

text \<open>
  \<^verbatim>\<open>enrichCard\<close>. Its result is the enriched card; the model returns with it the
  translation state, which the function changes in place, the warnings printed and the
  state of the outside world. \<open>replace\<close> is \<^verbatim>\<open>options.autoTranslateReplace\<close>.
\<close>

definition enrichCard ::
  "rounding \<Rightarrow> 'a CardRecord_scheme \<Rightarrow> (jsstring \<Rightarrow> IpadicFeatures list) \<Rightarrow>
   (jsstring \<rightharpoonup> DictionaryEntry) \<Rightarrow> TranslationState \<Rightarrow> ('a, 'w) TranslatorFn option \<Rightarrow>
   bool \<Rightarrow> 'w \<Rightarrow> 'a CardRecord_scheme \<times> TranslationState \<times> jsstring list \<times> 'w" where
  "enrichCard big card' tokenizer dictionary translations translator replace w =
     (let toks = tokenizer (or_empty (sentence card'));
          breakdown = filter (\<lambda>token. trim (surface token) \<noteq> [])
                        (map (normalizeToken dictionary) toks);
          translatorEnabled = (translator \<noteq> None);
          (translation, translationSource) =
            resolve_tiers card' translations translatorEnabled replace breakdown;
          shouldAutoTranslate =
            (translatorEnabled \<and>
             (\<not> truthy translation \<or> (replace \<and> translationSource \<noteq> Some SrcHint)));
          (translation, translations, warnings, w) =
            (case translator of
               None \<Rightarrow> (translation, translations, [], w)
             | Some translate \<Rightarrow>
                 if shouldAutoTranslate
                 then (case translate card' w of
                         (generated, warnings, w') \<Rightarrow>
                           (case generated of
                              None \<Rightarrow> (translation, translations, warnings, w')
                            | Some g \<Rightarrow>
                                if g = [] then (translation, translations, warnings, w')
                                else (Some g, registerGeneratedTranslation big translations card' g,
                                      warnings, w')))
                 else (translation, translations, [], w))
      in (card' \<lparr> translation := Some (or_empty translation), tokens := Some breakdown \<rparr>,
          translations, warnings, w))"

text \<open>
  The loop of \<^verbatim>\<open>main\<close> over the cards, one after the other: the enriched cards so
  far, the translation state, the warnings printed and the outside world are threaded
  through.
\<close>

fun enrich_cards ::
  "rounding \<Rightarrow> (jsstring \<Rightarrow> IpadicFeatures list) \<Rightarrow> (jsstring \<rightharpoonup> DictionaryEntry) \<Rightarrow>
   ('a, 'w) TranslatorFn option \<Rightarrow> bool \<Rightarrow> 'a CardRecord_scheme list \<Rightarrow>
   'a CardRecord_scheme list \<times> TranslationState \<times> jsstring list \<times> 'w \<Rightarrow>
   'a CardRecord_scheme list \<times> TranslationState \<times> jsstring list \<times> 'w" where
  "enrich_cards big tokenizer dictionary translator replace [] acc = acc"
| "enrich_cards big tokenizer dictionary translator replace (card' # rawCards)
     (enrichedCards, translations, warnings, w) =
     (case enrichCard big card' tokenizer dictionary translations translator replace w of
        (enriched, translations', warnings', w') \<Rightarrow>
          enrich_cards big tokenizer dictionary translator replace rawCards
            (enrichedCards @ [enriched], translations', warnings @ warnings', w'))"

section \<open>enrichCards.ts: the outputs\<close>










text \<open>
  Every translation that the hint indices hold is a non-empty string: the entries loaded
  from the hint file have passed \<^verbatim>\<open>sanitizeTranslationEntry\<close>, and a generated
  translation is registered only when it is not empty. The states that occur in a run
  have this property (see \<open>loadTranslationHints_nonempty\<close> and \<open>enrichCard_nonempty\<close>).
\<close>

definition hints_nonempty :: "TranslationState \<Rightarrow> bool" where
  "hints_nonempty st \<longleftrightarrow>
     [] \<notin> ran (byId st) \<and> [] \<notin> ran (bySubtitleId st) \<and> [] \<notin> ran (bySentence st)"

text \<open>
  Examples to run the resolver on: a state with one hint in each index, a card, a
  tokenizer that cuts at spaces and knows nothing else, and a translation service that
  always fails.
\<close>

definition example_hints :: TranslationState where
  "example_hints =
     \<lparr> byId = [js ''5'' \<mapsto> js ''Hello there''],
       bySubtitleId = [js ''7'' \<mapsto> js ''By subtitle''],
       bySentence = [js ''abc'' \<mapsto> js ''By sentence''],
       addedEntries = [], initialEntries = [], sourcePath = None \<rparr>"

definition example_card :: CardRecord where
  "example_card =
     \<lparr> id' = Integer 5, subtitleId = Some (Integer 7), sentence = Some (js '' abc ''),
       translation = Some (js '' mine ''), romaji = Some [], furigana = Some [],
       startTime = None, endTime = None, startMs = None, endMs = None, tokens = None \<rparr>"

definition example_tokenizer :: "jsstring \<Rightarrow> IpadicFeatures list" where
  "example_tokenizer s =
     map (\<lambda>word. \<lparr> surface_form = word, basic_form = js ''*'', ipa_reading = None,
                    ipa_pos = js ''*'', pos_detail_1 = js ''*'', pos_detail_2 = js ''*'',
                    pos_detail_3 = js ''*'' \<rparr>)
       (split_str [SP] s)"

definition failing_client :: "nat deepl_client" where
  "failing_client request w = (Failure (js ''Quota exceeded''), w + 1)"





text \<open>
  The run of the loop over the cards, card by card: each card with the translation
  state and the outside world in which it is enriched, and the state and the world
  after the last card.
\<close>

fun card_runs ::
  "rounding \<Rightarrow> (jsstring \<Rightarrow> IpadicFeatures list) \<Rightarrow> (jsstring \<rightharpoonup> DictionaryEntry) \<Rightarrow>
   ('a, 'w) TranslatorFn option \<Rightarrow> bool \<Rightarrow> 'a CardRecord_scheme list \<Rightarrow> TranslationState \<Rightarrow> 'w \<Rightarrow>
   ('a CardRecord_scheme \<times> TranslationState \<times> 'w) list" where
  "card_runs big tokenizer dictionary translator replace [] st w = []"
| "card_runs big tokenizer dictionary translator replace (c # cs) st w =
     (c, st, w) #
     (case enrichCard big c tokenizer dictionary st translator replace w of
        (enriched, st', warnings, w') \<Rightarrow>
          card_runs big tokenizer dictionary translator replace cs st' w')"





section \<open>Facts about the string functions\<close>

lemma trim_subset: "set (trim s) \<subseteq> set s"
  unfolding trim_def by (auto dest!: set_dropWhileD)

lemma dropWhile_rev_stable:
  assumes "t = [] \<or> \<not> P (hd t)"
  shows "dropWhile P (rev (dropWhile P (rev t))) = rev (dropWhile P (rev t))"
proof (cases t)
  case Nil
  then show ?thesis by simp
next
  case (Cons x xs)
  with assms have nx: "\<not> P x" by simp
  have "dropWhile P (rev (x # xs)) = dropWhile P (rev xs) @ [x]"
    using nx by (simp add: dropWhile_append3)
  then have "rev (dropWhile P (rev (x # xs))) = x # rev (dropWhile P (rev xs))"
    by simp
  with Cons nx show ?thesis by simp
qed

lemma dropWhile_rev_dropWhile_rev:
  "dropWhile P (rev (dropWhile P (rev (dropWhile P s)))) = rev (dropWhile P (rev (dropWhile P s)))"
proof (rule dropWhile_rev_stable)
  show "dropWhile P s = [] \<or> \<not> P (hd (dropWhile P s))"
    using hd_dropWhile [of P s] by blast
qed

lemma trim_trim: "trim (trim s) = trim s"
  unfolding trim_def
  by (simp add: dropWhile_rev_dropWhile_rev dropWhile_idem)

lemma replace_tabs_no_tab: "TAB \<notin> set (replace_tabs s)"
  by (auto simp: replace_tabs_def)

lemma replace_tabs_id: "TAB \<notin> set s \<Longrightarrow> replace_tabs s = s"
  by (induction s) (auto simp: replace_tabs_def)

lemma replace_newlines_no_lf: "LF \<notin> set (replace_newlines s)"
  by (induction s rule: replace_newlines.induct) auto

lemma replace_newlines_subset: "set (replace_newlines s) \<subseteq> insert SP (set s)"
  by (induction s rule: replace_newlines.induct) auto

lemma replace_newlines_id: "LF \<notin> set s \<Longrightarrow> replace_newlines s = s"
  by (induction s rule: replace_newlines.induct) auto

lemma clean_no_tab: "TAB \<notin> set (clean v)"
proof -
  have "TAB \<notin> insert SP (set (replace_tabs (case v of None \<Rightarrow> [] | Some s \<Rightarrow> s)))"
    using replace_tabs_no_tab by simp
  then have "TAB \<notin> set (replace_newlines (replace_tabs (case v of None \<Rightarrow> [] | Some s \<Rightarrow> s)))"
    using replace_newlines_subset by blast
  then show ?thesis
    unfolding clean_def using trim_subset by blast
qed

lemma clean_no_lf: "LF \<notin> set (clean v)"
  unfolding clean_def using trim_subset replace_newlines_no_lf by blast


section \<open>Facts about the subtitle parser\<close>

text \<open>The definitions that evaluate the string functions on a literal.\<close>

lemmas str_eval = js_def starts_with_def split_str_def split_blank_runs_def remove_bom_def
  remove_cr_def normalized_def trim_def is_ws_def is_digit_def digit_val_def digits_val_def
  at_def

subsection \<open>Blocks\<close>



subsection \<open>Timecodes\<close>

lemma match_timecode_here_Some:
  "is_timecode (take 12 s) \<Longrightarrow>
   match_timecode_here s = Some (take 2 s, take 2 (drop 3 s), take 2 (drop 6 s), take 3 (drop 9 s))"
  by (cases s rule: match_timecode_here.cases) (auto simp: is_timecode_def)

lemma match_timecode_here_None:
  "\<not> is_timecode (take 12 s) \<Longrightarrow> match_timecode_here s = None"
  by (cases s rule: match_timecode_here.cases) (auto simp: is_timecode_def)

lemma is_timecode_length: "is_timecode s \<Longrightarrow> length s = 12"
  by (simp add: is_timecode_def)

lemma match_timecode_None:
  "(\<And>i. \<not> is_timecode (take 12 (drop i s))) \<Longrightarrow> match_timecode s = None"
proof (induction s)
  case Nil
  then show ?case by simp
next
  case (Cons c cs)
  from Cons.prems [of 0] have "match_timecode_here (c # cs) = None"
    by (simp add: match_timecode_here_None)
  moreover have "match_timecode cs = None"
    using Cons.prems [of "Suc _"] by (intro Cons.IH) simp
  ultimately show ?case by simp
qed

lemma match_timecode_leftmost:
  "is_timecode (take 12 (drop i s)) \<Longrightarrow> (\<And>j. j < i \<Longrightarrow> \<not> is_timecode (take 12 (drop j s))) \<Longrightarrow>
   match_timecode s =
     Some (take 2 (drop i s), take 2 (drop 3 (drop i s)), take 2 (drop 6 (drop i s)),
           take 3 (drop 9 (drop i s)))"
proof (induction i arbitrary: s)
  case 0
  then obtain c cs where s: "s = c # cs"
    by (cases s) (auto dest: is_timecode_length)
  with 0 show ?case
    using match_timecode_here_Some [of s] by simp
next
  case (Suc i)
  then obtain c cs where s: "s = c # cs"
    by (cases s) (auto dest: is_timecode_length)
  from Suc.prems(2) [of 0] s have "match_timecode_here (c # cs) = None"
    by (simp add: match_timecode_here_None)
  moreover have "match_timecode cs =
     Some (take 2 (drop i cs), take 2 (drop 3 (drop i cs)), take 2 (drop 6 (drop i cs)),
           take 3 (drop 9 (drop i cs)))"
  proof (rule Suc.IH)
    show "is_timecode (take 12 (drop i cs))" using Suc.prems(1) s by simp
    show "\<not> is_timecode (take 12 (drop j cs))" if "j < i" for j
      using Suc.prems(2) [of "Suc j"] that s by simp
  qed
  ultimately show ?case using s by simp
qed

lemma timecode_ms_take:
  "is_timecode t \<Longrightarrow>
   digits_val (take 2 t) * 3600 * 1000 + digits_val (take 2 (drop 3 t)) * 60 * 1000 +
   digits_val (take 2 (drop 6 t)) * 1000 + digits_val (take 3 (drop 9 t)) = timecode_ms t"
  by (simp add: timecode_ms_def)


subsection \<open>The loop of parseSrt\<close>

lemma parse_block_None_iff: "parse_block big n block = None \<longleftrightarrow> text_lines big block = []"
  by (simp add: parse_block_def text_lines_def Let_def split: option.splits)

lemma parse_block_index: "parse_block big n block = Some e \<Longrightarrow> index e = n + 1"
  by (auto simp: parse_block_def Let_def split: option.splits if_splits)

lemma parse_block_text:
  "parse_block big n block = Some e \<Longrightarrow> text e = join [SP] (text_lines big block)"
  by (auto simp: parse_block_def text_lines_def Let_def split: option.splits if_splits)

lemma parse_blocks_shape:
  "\<exists>new. parse_blocks big entries blocks = entries @ new \<and>
     length new = length (filter (\<lambda>b. text_lines big b \<noteq> []) blocks) \<and>
     map index new = [length entries + 1 ..< length entries + 1 + length new] \<and>
     map text new = map (\<lambda>b. join [SP] (text_lines big b))
                        (filter (\<lambda>b. text_lines big b \<noteq> []) blocks)"
proof (induction blocks arbitrary: entries)
  case Nil
  then show ?case by simp
next
  case (Cons b bs)
  show ?case
  proof (cases "parse_block big (length entries) b")
    case None
    then have "text_lines big b = []" by (simp add: parse_block_None_iff)
    with None Cons.IH [of entries] show ?thesis by simp
  next
    case (Some e)
    then have t: "text_lines big b \<noteq> []"
      using parse_block_None_iff [of big "length entries" b] by simp
    from Cons.IH [of "entries @ [e]"] obtain new where
      new: "parse_blocks big (entries @ [e]) bs = (entries @ [e]) @ new"
        "length new = length (filter (\<lambda>b. text_lines big b \<noteq> []) bs)"
        "map index new = [length (entries @ [e]) + 1 ..< length (entries @ [e]) + 1 + length new]"
        "map text new = map (\<lambda>b. join [SP] (text_lines big b))
                        (filter (\<lambda>b. text_lines big b \<noteq> []) bs)"
      by blast
    have "map index (e # new) = [length entries + 1 ..< length entries + 1 + length (e # new)]"
      using new(3) parse_block_index [OF Some] by (simp add: upt_conv_Cons del: upt_Suc)
    moreover have "map text (e # new) = map (\<lambda>b. join [SP] (text_lines big b))
                        (filter (\<lambda>b. text_lines big b \<noteq> []) (b # bs))"
      using new(4) parse_block_text [OF Some] t by simp
    moreover have "parse_blocks big entries (b # bs) = entries @ (e # new)"
      using Some new(1) by simp
    moreover have "length (e # new) = length (filter (\<lambda>b. text_lines big b \<noteq> []) (b # bs))"
      using new(2) t by simp
    ultimately show ?thesis by blast
  qed
qed

lemma map_buildCards:
  "map card_id (buildCards es) = [1 ..< length es + 1]"
  "map card_subtitleId (buildCards es) = map rawId es"
  "map card_sentence (buildCards es) = map text es"
  "map card_startTime (buildCards es) = map start es"
  "map card_endTime (buildCards es) = map end es"
  "map card_startMs (buildCards es) = map entry_startMs es"
  "map card_endMs (buildCards es) = map entry_endMs es"
  "map card_translation (buildCards es) = map (\<lambda>e. []) es"
proof -
  have "map card_id (buildCards es) = map (\<lambda>p. fst p + 1) (enumerate 0 es)"
    by (simp add: buildCards_def case_prod_beta comp_def)
  also have "\<dots> = map Suc [0 ..< length es]"
    by (simp add: enumerate_eq_zip map_fst_zip flip: map_map [of Suc fst, unfolded comp_def])
  also have "\<dots> = [1 ..< length es + 1]"
    by (simp add: map_Suc_upt)
  finally show "map card_id (buildCards es) = [1 ..< length es + 1]" .
  have snd: "map (\<lambda>p. f (snd p)) (enumerate 0 es) = map f es" for f :: "SubtitleEntry \<Rightarrow> 'b"
    by (simp add: enumerate_eq_zip flip: map_map [of f snd, unfolded comp_def])
  show "map card_subtitleId (buildCards es) = map rawId es"
    using snd [of rawId] by (simp add: buildCards_def case_prod_beta comp_def)
  show "map card_sentence (buildCards es) = map text es"
    using snd [of "text"] by (simp add: buildCards_def case_prod_beta comp_def)
  show "map card_startTime (buildCards es) = map start es"
    using snd [of start] by (simp add: buildCards_def case_prod_beta comp_def)
  show "map card_endTime (buildCards es) = map end es"
    using snd [of "end"] by (simp add: buildCards_def case_prod_beta comp_def)
  show "map card_startMs (buildCards es) = map entry_startMs es"
    using snd [of entry_startMs] by (simp add: buildCards_def case_prod_beta comp_def)
  show "map card_endMs (buildCards es) = map entry_endMs es"
    using snd [of entry_endMs] by (simp add: buildCards_def case_prod_beta comp_def)
  show "map card_translation (buildCards es) = map (\<lambda>e. []) es"
    using snd [of "\<lambda>e. []"] by (simp add: buildCards_def case_prod_beta comp_def)
qed

text \<open>
  What the loop body does with the first non-blank line of a block: a finite
  \<^verbatim>\<open>parseInt\<close> of it is the rawId; otherwise the rawId is the count of entries plus one
  and the range step reads that same line. The scenario of the specification, a block
  with its number, its range line and a line of text, is parsed as expected.
\<close>

lemma parse_block_rawId:
  assumes "parse_block big n block = Some e"
    and "findIndex (\<lambda>line. length (trim line) > 0) (split_str [LF] block) = Some m"
  shows "rawId e =
     (if isFinite (parseInt10 big (trim (split_str [LF] block ! m)))
      then parseInt10 big (trim (split_str [LF] block ! m)) else Integer (int n + 1))"
  using assms by (auto simp: parse_block_def Let_def split: if_splits)

lemma parse_block_synthesized_range:
  assumes "parse_block big n block = Some e"
    and "findIndex (\<lambda>line. length (trim line) > 0) (split_str [LF] block) = Some m"
    and "\<not> isFinite (parseInt10 big (trim (split_str [LF] block ! m)))"
    and "m < length (split_str [LF] block)"
    and "str_includes (js ''-->'') (split_str [LF] block ! m)"
  shows "start e = at (map trim (split_str (js ''-->'') (split_str [LF] block ! m))) 0 \<and>
     end e = at (map trim (split_str (js ''-->'') (split_str [LF] block ! m))) 1"
  using assms by (auto simp: parse_block_def Let_def split: if_splits)

lemma numbered_block_scenario:
  "parseSrt big (js ''1\<newline>00:00:01,000 --> 00:00:02,500\<newline>'' @ [0x3053, 0x3093, 0x306B, 0x3061, 0x306F]) =
     [\<lparr>index = 1, rawId = Integer 1, start = Some (js ''00:00:01,000''),
        end = Some (js ''00:00:02,500''), entry_startMs = Some 1000, entry_endMs = Some 2500,
        text = [0x3053, 0x3093, 0x306B, 0x3061, 0x306F]\<rparr>]"
  by (simp add: parseSrt_def parse_block_def parseInt10_def number_of_def timecodeToMs_def
      str_eval)

text \<open>
  Entries and cards are numbered contiguously: with N the number of blocks in which the
  loop body finds text lines (\<open>text_lines\<close>), \<^verbatim>\<open>parseSrt\<close> returns N entries with
  the index values 1..N and \<^verbatim>\<open>buildCards\<close> N cards with the id values 1..N, whatever
  the declared caption numbers are; each card's subtitleId is the entry's rawId, and its
  sentence, time and millisecond fields are those of the entry.
\<close>

lemma parseSrt_buildCards_contiguous:
  "let blocks = split_blank_runs (normalized content);
       N = length (filter (\<lambda>b. text_lines big b \<noteq> []) blocks);
       entries = parseSrt big content;
       cards = buildCards entries
   in length entries = N \<and> map index entries = [1 ..< N + 1] \<and>
      length cards = N \<and> map card_id cards = [1 ..< N + 1] \<and>
      map card_subtitleId cards = map rawId entries \<and>
      map card_sentence cards = map text entries \<and>
      map card_startTime cards = map start entries \<and>
      map card_endTime cards = map end entries \<and>
      map card_startMs cards = map entry_startMs entries \<and>
      map card_endMs cards = map entry_endMs entries"
proof -
  obtain new where new:
    "parse_blocks big [] (split_blank_runs (normalized content)) = [] @ new"
    "length new = length (filter (\<lambda>b. text_lines big b \<noteq> []) (split_blank_runs (normalized content)))"
    "map index new = [length ([]::SubtitleEntry list) + 1 ..< length ([]::SubtitleEntry list) + 1 + length new]"
    using parse_blocks_shape [of big "[]" "split_blank_runs (normalized content)"] by blast
  have len: "length (buildCards es) = length es" for es
    by (simp add: buildCards_def)
  show ?thesis
    using new by (simp add: Let_def parseSrt_def map_buildCards len)
qed

section \<open>Facts about the translation resolver\<close>

lemma enrichCard_card:
  "\<exists>t b. fst (enrichCard big c tokenizer dictionary st translator replace w) =
     c \<lparr> translation := Some t, tokens := Some b \<rparr>"
  by (auto simp: enrichCard_def Let_def split: prod.splits option.splits)

subsection \<open>The hint indices hold non-empty translations\<close>

lemma ran_upd_nonempty: "[] \<notin> ran m \<Longrightarrow> v \<noteq> [] \<Longrightarrow> [] \<notin> ran (m(k \<mapsto> v))"
  by (auto simp: ran_def)

lemma sanitize_translation_nonempty:
  "sanitizeTranslationEntry big e = Some s \<Longrightarrow> entry_translation s \<noteq> []"
  by (auto simp: sanitizeTranslationEntry_def Let_def
      split: json.splits option.splits if_splits)

lemma registerEntry_nonempty:
  assumes "hints_nonempty st"
  shows "hints_nonempty (registerEntry big e st)"
proof (cases "sanitizeTranslationEntry big e")
  case None
  with assms show ?thesis by (simp add: registerEntry_def)
next
  case (Some s)
  then have "entry_translation s \<noteq> []" by (rule sanitize_translation_nonempty)
  with assms Some show ?thesis
    by (auto simp: registerEntry_def hints_nonempty_def ran_upd_nonempty split: option.splits)
qed

lemma fold_registerEntry_nonempty:
  "hints_nonempty st \<Longrightarrow> hints_nonempty (fold (registerEntry big) xs st)"
  by (induction xs arbitrary: st) (simp_all add: registerEntry_nonempty)

lemma fold_register_object_nonempty:
  "hints_nonempty st \<Longrightarrow>
   hints_nonempty (fold (\<lambda>(key, value) st.
       case value of
         JStr s \<Rightarrow> registerEntry big (JObj [(js ''id'', JStr key), (js ''translation'', value)]) st
       | JObj vs \<Rightarrow> registerEntry big (JObj (spread [(js ''id'', JStr key)] vs)) st
       | JArr xs \<Rightarrow> registerEntry big (JObj (spread [(js ''id'', JStr key)] (array_props xs))) st
       | _ \<Rightarrow> st) props st)"
proof (induction props arbitrary: st)
  case Nil
  then show ?case by simp
next
  case (Cons p ps)
  obtain key val where p: "p = (key, val)" by (cases p)
  show ?case
    unfolding p fold_Cons comp_def
    by (rule Cons.IH) (cases val; simp add: Cons.prems registerEntry_nonempty)
qed

lemma empty_state_nonempty: "hints_nonempty (empty_state p)"
  by (simp add: hints_nonempty_def empty_state_def)

lemma loadTranslationHints_nonempty: "hints_nonempty (fst (loadTranslationHints big f))"
proof (cases f)
  case NoPath
  then show ?thesis by (simp add: loadTranslationHints_def empty_state_nonempty)
next
  case (NoFile p)
  then show ?thesis by (simp add: loadTranslationHints_def empty_state_nonempty)
next
  case (HintFile p raw)
  then show ?thesis
    by (cases raw)
       (simp_all add: loadTranslationHints_def empty_state_nonempty
          fold_registerEntry_nonempty fold_register_object_nonempty)
qed

lemma registerGeneratedTranslation_nonempty:
  "hints_nonempty st \<Longrightarrow> g \<noteq> [] \<Longrightarrow>
   hints_nonempty (registerGeneratedTranslation big st c g)"
  by (auto simp: registerGeneratedTranslation_def hints_nonempty_def Let_def ran_upd_nonempty
      split: option.splits)

lemma enrichCard_nonempty:
  "hints_nonempty st \<Longrightarrow>
   hints_nonempty (fst (snd (enrichCard big c tokenizer dictionary st translator replace w)))"
  by (auto simp: enrichCard_def Let_def registerGeneratedTranslation_nonempty
      split: prod.splits option.splits)

subsection \<open>The order of the tiers\<close>

lemma pickTranslation_nonempty:
  "hints_nonempty st \<Longrightarrow> pickTranslation c st = Some t \<Longrightarrow> t \<noteq> []"
  by (auto simp: pickTranslation_def hints_nonempty_def ran_def Let_def split: if_splits)

lemma resolve_tiers_hint:
  "pickTranslation c st = Some t \<Longrightarrow> t \<noteq> [] \<Longrightarrow>
   resolve_tiers c st enabled replace breakdown = (Some t, Some SrcHint)"
  by (simp add: resolve_tiers_def truthy_def Let_def)

lemma enrichCard_hint:
  assumes "pickTranslation c st = Some t" "t \<noteq> []"
  shows "enrichCard big c tokenizer dictionary st translator replace w =
     (c \<lparr> translation := Some t,
          tokens := Some (filter (\<lambda>token. trim (surface token) \<noteq> [])
                      (map (normalizeToken dictionary) (tokenizer (or_empty (sentence c))))) \<rparr>,
      st, [], w)"
  using assms
  by (simp add: enrichCard_def Let_def resolve_tiers_hint truthy_def or_empty_def
      split: option.splits)

lemma resolve_tiers_card:
  "\<not> truthy (pickTranslation c st) \<Longrightarrow> trim (or_empty (translation c)) \<noteq> [] \<Longrightarrow>
   \<not> enabled \<or> \<not> replace \<Longrightarrow>
   resolve_tiers c st enabled replace breakdown =
     (Some (trim (or_empty (translation c))), Some SrcCard)"
  by (simp add: resolve_tiers_def truthy_def Let_def)

lemma resolve_tiers_source_card:
  "snd (resolve_tiers c st enabled replace breakdown) = Some SrcCard \<Longrightarrow>
   \<not> truthy (pickTranslation c st) \<and> (\<not> enabled \<or> \<not> replace) \<and>
   fst (resolve_tiers c st enabled replace breakdown) = Some (trim (or_empty (translation c)))"
  by (auto simp: resolve_tiers_def Let_def split: if_splits)

lemma enrichCard_card_translation:
  assumes "\<not> truthy (pickTranslation c st)" "trim (or_empty (translation c)) \<noteq> []"
    "translator = None \<or> \<not> replace"
  shows "translation (fst (enrichCard big c tokenizer dictionary st translator replace w)) =
     Some (trim (or_empty (translation c)))"
proof -
  have "resolve_tiers c st (translator \<noteq> None) replace b =
     (Some (trim (or_empty (translation c))), Some SrcCard)" for b
    using assms by (intro resolve_tiers_card) auto
  then show ?thesis
    using assms(2,3)
    by (auto simp: enrichCard_def Let_def truthy_def or_empty_def split: option.splits)
qed

subsection \<open>Evaluating the examples\<close>

lemma dec_nat_digit: "n < 10 \<Longrightarrow> dec_nat n = [0x30 + of_nat n]"
  by (simp add: dec_nat.simps)

lemmas enrich_eval = example_hints_def example_card_def example_tokenizer_def failing_client_def
  pickTranslation_def resolve_tiers_def truthy_def or_empty_def dec_int_def dec_nat_digit
  buildLiteralTranslation_def normalizeToken_def buildPosLabel_def translatePosPart_def


subsection \<open>A failing translation service\<close>





lemma enrich_cards_length:
  "length (fst (enrich_cards big tokenizer dictionary translator replace cards acc)) =
   length (fst acc) + length cards"
proof (induction cards arbitrary: acc)
  case Nil
  then show ?case by simp
next
  case (Cons c cs)
  obtain es st ws w where acc: "acc = (es, st, ws, w)" by (cases acc)
  obtain e st' ws' w' where
    e: "enrichCard big c tokenizer dictionary st translator replace w = (e, st', ws', w')"
    by (cases "enrichCard big c tokenizer dictionary st translator replace w")
  show ?case
    using Cons.IH [of "(es @ [e], st', ws @ ws', w')"] by (simp add: acc e)
qed

subsection \<open>The run over the cards\<close>






lemma card_runs_nonempty:
  "hints_nonempty st \<Longrightarrow>
   (c, st', w') \<in> set (card_runs big tokenizer dictionary translator replace cards st w) \<Longrightarrow>
   hints_nonempty st'"
proof (induction cards arbitrary: st w)
  case Nil
  then show ?case by simp
next
  case (Cons d ds)
  obtain e st1 ws1 w1 where
    e: "enrichCard big d tokenizer dictionary st translator replace w = (e, st1, ws1, w1)"
    by (cases "enrichCard big d tokenizer dictionary st translator replace w")
  have "hints_nonempty st1"
    using enrichCard_nonempty [OF Cons.prems(1), of big d tokenizer dictionary translator replace w]
    by (simp add: e)
  with Cons show ?case
    by (auto simp: e)
qed




subsection \<open>Loading hints\<close>












section \<open>Facts about the translation cache\<close>

subsection \<open>Decimal strings\<close>





subsection \<open>Keys\<close>











subsection \<open>The map after the updates\<close>






section \<open>Claims\<close>







text \<open>
  Claim C6, as the code has it. The timecode codec returns null for null; for a string
  that is \<^verbatim>\<open>HH:MM:SS,mmm\<close> it returns exactly H*3600000 + M*60000 + S*1000 + ms; for
  any string it returns that number for the leftmost place where twelve code units have
  this format, whatever stands before and after them; and it returns null when the
  string has no such place. It never throws.
\<close>

theorem timecodeToMs_leftmost:
  "timecodeToMs None = None \<and>
   (is_timecode tc \<longrightarrow> timecodeToMs (Some tc) = Some (timecode_ms tc)) \<and>
   (is_timecode (take 12 (drop i s)) \<and> (\<forall>j<i. \<not> is_timecode (take 12 (drop j s))) \<longrightarrow>
      timecodeToMs (Some s) = Some (timecode_ms (take 12 (drop i s)))) \<and>
   ((\<forall>k. \<not> is_timecode (take 12 (drop k s))) \<longrightarrow> timecodeToMs (Some s) = None)"
proof (intro conjI impI)
  show "timecodeToMs None = None"
    by (simp add: timecodeToMs_def)
next
  assume tc: "is_timecode tc"
  then have "tc \<noteq> []" by (auto dest: is_timecode_length)
  moreover have "is_timecode (take 12 (drop 0 tc))"
    using tc by (simp add: is_timecode_length)
  then have "match_timecode tc = Some (take 2 (drop 0 tc), take 2 (drop 3 (drop 0 tc)),
      take 2 (drop 6 (drop 0 tc)), take 3 (drop 9 (drop 0 tc)))"
    by (rule match_timecode_leftmost) simp
  ultimately show "timecodeToMs (Some tc) = Some (timecode_ms tc)"
    by (simp add: timecodeToMs_def timecode_ms_def)
next
  assume a: "is_timecode (take 12 (drop i s)) \<and> (\<forall>j<i. \<not> is_timecode (take 12 (drop j s)))"
  then have "s \<noteq> []" by (auto dest: is_timecode_length)
  moreover from a have "match_timecode s = Some (take 2 (drop i s), take 2 (drop 3 (drop i s)),
      take 2 (drop 6 (drop i s)), take 3 (drop 9 (drop i s)))"
    by (intro match_timecode_leftmost) auto
  moreover have "length (drop i s) \<ge> 12"
    using a by (auto dest!: is_timecode_length)
  ultimately show "timecodeToMs (Some s) = Some (timecode_ms (take 12 (drop i s)))"
    by (simp add: timecodeToMs_def timecode_ms_def take_drop min_def)
next
  assume "\<forall>k. \<not> is_timecode (take 12 (drop k s))"
  then have "match_timecode s = None"
    by (intro match_timecode_None) simp
  then show "timecodeToMs (Some s) = None"
    by (simp add: timecodeToMs_def)
qed

text \<open>
  Claim C6, witness: a timecode alone, a timecode inside a longer string, and a string
  without a timecode.
\<close>

theorem timecodeToMs_leftmost_witness:
  "timecodeToMs (Some (js ''00:00:02,500'')) = Some 2500 \<and>
   timecodeToMs (Some (js ''x 00:00:02,500 X1:040'')) = Some 2500 \<and>
   timecodeToMs (Some (js ''1:2:3,4'')) = None"
proof -
  have 1: "is_timecode (js ''00:00:02,500'')"
    by (simp add: is_timecode_def str_eval)
  have 2: "is_timecode (take 12 (drop 2 (js ''x 00:00:02,500 X1:040''))) \<and>
     (\<forall>j<2. \<not> is_timecode (take 12 (drop j (js ''x 00:00:02,500 X1:040''))))"
    by (simp add: is_timecode_def str_eval less_2_cases_iff)
  have 3: "\<forall>k. \<not> is_timecode (take 12 (drop k (js ''1:2:3,4'')))"
  proof (intro allI notI)
    fix k
    assume "is_timecode (take 12 (drop k (js ''1:2:3,4'')))"
    then have "length (take 12 (drop k (js ''1:2:3,4''))) = 12"
      by (rule is_timecode_length)
    then show False by (simp add: js_def)
  qed
  show ?thesis
    using timecodeToMs_leftmost [of "js ''00:00:02,500''" 2 "js ''x 00:00:02,500 X1:040''"]
      timecodeToMs_leftmost [of "js ''00:00:02,500''" 0 "js ''1:2:3,4''"] 1 2 3
    by (simp add: timecode_ms_def str_eval)
qed

text \<open>
  Claim C6, counterexample. The end of a range line that carries coordinates after the
  timecode is not of the format \<^verbatim>\<open>HH:MM:SS,mmm\<close>, and the codec does not return
  null for it.
\<close>

theorem timecodeToMs_unanchored_counterexample:
  "\<not> is_timecode (js ''00:00:02,500 X1:040'') \<and>
   timecodeToMs (Some (js ''00:00:02,500 X1:040'')) \<noteq> None"
  by (simp add: is_timecode_def timecodeToMs_def str_eval)


text \<open>
  Claim C7, at the input where the code departs from it. The file \<^verbatim>\<open>3 men\<close> is one
  caption block with no caption-number line and no time range; its one line is not an
  integer, so in the words of the specification it is the text of the block and N is 1.
  \<^verbatim>\<open>parseInt\<close> reads the leading \<^verbatim>\<open>3\<close> of the line as the number 3, so the code
  consumes the line as the declared caption number, finds no text and drops the block:
  no entry and no card, where the claim has one of each. In the file of two such blocks
  \<^verbatim>\<open>3 men\<close> and \<^verbatim>\<open>Hello\<close>, both with text, the code produces one entry and one
  card, for \<^verbatim>\<open>Hello\<close>, where the claim has two.
\<close>

theorem digit_led_text_taken_as_rawId:
  "spec_text_lines (js ''3 men'') = [js ''3 men''] \<and>
   parseSrt big (js ''3 men'') = [] \<and>
   buildCards (parseSrt big (js ''3 men'')) = [] \<and>
   map spec_text_lines [js ''3 men'', js ''Hello''] = [[js ''3 men''], [js ''Hello'']] \<and>
   parseSrt big (js ''3 men\<newline>\<newline>Hello'') =
     [\<lparr>index = 1, rawId = Integer 1, start = None, end = None,
        entry_startMs = None, entry_endMs = None, text = js ''Hello''\<rparr>] \<and>
   buildCards (parseSrt big (js ''3 men\<newline>\<newline>Hello'')) =
     [\<lparr>card_id = 1, card_subtitleId = Integer 1, card_sentence = js ''Hello'',
        card_translation = [], card_romaji = [], card_furigana = [],
        card_startTime = None, card_endTime = None, card_startMs = None,
        card_endMs = None\<rparr>]"
proof -
  have a: "spec_text_lines (js ''3 men'') = [js ''3 men'']"
    "spec_text_lines (js ''Hello'') = [js ''Hello'']"
    by (simp_all add: spec_text_lines_def is_integer_line_def str_eval)
  have b: "parseSrt big (js ''3 men'') = []"
    by (simp add: parseSrt_def parse_block_def parseInt10_def number_of_def timecodeToMs_def
        str_eval)
  have c: "parseSrt big (js ''3 men\<newline>\<newline>Hello'') =
     [\<lparr>index = 1, rawId = Integer 1, start = None, end = None,
        entry_startMs = None, entry_endMs = None, text = js ''Hello''\<rparr>]"
    by (simp add: parseSrt_def parse_block_def parseInt10_def number_of_def timecodeToMs_def
        str_eval)
  show ?thesis
    unfolding b c by (simp add: a buildCards_def)
qed

text \<open>
  Claim C4, at the input where the code departs from it. A block whose first non-blank
  line is the range line \<^verbatim>\<open>00:00:01,000 --> 00:00:02,500\<close>, followed by one line of
  text: \<^verbatim>\<open>parseInt\<close> reads the leading \<^verbatim>\<open>00\<close> of the range line as the number 0, so
  the line is consumed as the declared caption number and the time-range step sees the
  text line; the entry has rawId 0 and neither timecodes nor milliseconds.
\<close>

theorem range_line_taken_as_rawId:
  "parseSrt big (js ''00:00:01,000 --> 00:00:02,500\<newline>'' @ [0x3053, 0x3093, 0x306B, 0x3061, 0x306F]) =
     [\<lparr>index = 1, rawId = Integer 0, start = None, end = None,
        entry_startMs = None, entry_endMs = None,
        text = [0x3053, 0x3093, 0x306B, 0x3061, 0x306F]\<rparr>]"
  by (simp add: parseSrt_def parse_block_def parseInt10_def number_of_def timecodeToMs_def
      str_eval)


text \<open>
  Claim C8. For every input card, with whatever extra fields, enrichment changes only
  the translation and the tokens: the enriched card is the input card with these two
  fields set, and id, subtitleId, sentence, romaji, furigana, startTime, endTime,
  startMs, endMs and the extra fields are those of the input card.
\<close>

theorem enrichCard_frame:
  "id' (fst (enrichCard big c tokenizer dictionary st translator replace w)) = id' c \<and>
   subtitleId (fst (enrichCard big c tokenizer dictionary st translator replace w)) = subtitleId c \<and>
   sentence (fst (enrichCard big c tokenizer dictionary st translator replace w)) = sentence c \<and>
   romaji (fst (enrichCard big c tokenizer dictionary st translator replace w)) = romaji c \<and>
   furigana (fst (enrichCard big c tokenizer dictionary st translator replace w)) = furigana c \<and>
   startTime (fst (enrichCard big c tokenizer dictionary st translator replace w)) = startTime c \<and>
   endTime (fst (enrichCard big c tokenizer dictionary st translator replace w)) = endTime c \<and>
   startMs (fst (enrichCard big c tokenizer dictionary st translator replace w)) = startMs c \<and>
   endMs (fst (enrichCard big c tokenizer dictionary st translator replace w)) = endMs c \<and>
   CardRecord.more (fst (enrichCard big c tokenizer dictionary st translator replace w)) =
     CardRecord.more c"
proof -
  obtain t b where "fst (enrichCard big c tokenizer dictionary st translator replace w) =
     c \<lparr> translation := Some t, tokens := Some b \<rparr>"
    using enrichCard_card [of big c tokenizer dictionary st translator replace w] by (elim exE)
  then show ?thesis by simp
qed

text \<open>
  Claim C8, witness: the example card, enriched against the example hints with a failing
  translation service, has its id, subtitleId, sentence and remaining fields as before.
\<close>

theorem enrichCard_frame_witness:
  "id' (fst (enrichCard example_rounding example_card example_tokenizer Map.empty example_hints
      (Some (deepl_translator failing_client (js ''default'') None)) True 0)) = Integer 5 \<and>
   subtitleId (fst (enrichCard example_rounding example_card example_tokenizer Map.empty
      example_hints (Some (deepl_translator failing_client (js ''default'') None)) True 0)) =
     Some (Integer 7) \<and>
   sentence (fst (enrichCard example_rounding example_card example_tokenizer Map.empty
      example_hints (Some (deepl_translator failing_client (js ''default'') None)) True 0)) =
     Some (js '' abc '') \<and>
   romaji (fst (enrichCard example_rounding example_card example_tokenizer Map.empty
      example_hints (Some (deepl_translator failing_client (js ''default'') None)) True 0)) =
     Some [] \<and>
   startMs (fst (enrichCard example_rounding example_card example_tokenizer Map.empty
      example_hints (Some (deepl_translator failing_client (js ''default'') None)) True 0)) = None"
  using enrichCard_frame [of example_rounding example_card example_tokenizer Map.empty
      example_hints "Some (deepl_translator failing_client (js ''default'') None)" True 0]
  by (simp add: example_card_def)


text \<open>
  Claim C1. For every card and every state of the translation hints that a run can
  reach (the indices hold no empty translation), the resolution is strictly ordered: a
  hint under the card's id, as a string, wins; else a hint under its subtitleId; else a
  hint under its trimmed, non-empty sentence; a hint that matched is the translation of
  the enriched card, whatever the card's own translation and the options are. The
  card's own non-empty trimmed translation is taken when no hint matched and
  auto-translation is disabled or set to keep existing values, and it is the source
  only then.
\<close>

theorem translation_priority:
  assumes "hints_nonempty st"
  shows
   "(byId st (String_number (id' c)) = Some t \<longrightarrow> pickTranslation c st = Some t) \<and>
    (byId st (String_number (id' c)) = None \<and> subtitleId c = Some sid \<and>
       bySubtitleId st (String_number sid) = Some t \<longrightarrow> pickTranslation c st = Some t) \<and>
    (byId st (String_number (id' c)) = None \<and>
       (\<forall>sid. subtitleId c = Some sid \<longrightarrow> bySubtitleId st (String_number sid) = None) \<and>
       trim (or_empty (sentence c)) \<noteq> [] \<and>
       bySentence st (trim (or_empty (sentence c))) = Some t \<longrightarrow> pickTranslation c st = Some t) \<and>
    (pickTranslation c st = Some t \<longrightarrow>
       resolve_tiers c st enabled replace breakdown = (Some t, Some SrcHint) \<and>
       translation (fst (enrichCard big c tokenizer dictionary st translator replace w)) = Some t) \<and>
    (pickTranslation c st = None \<and> trim (or_empty (translation c)) \<noteq> [] \<and>
       (translator = None \<or> \<not> replace) \<longrightarrow>
       resolve_tiers c st (translator \<noteq> None) replace breakdown =
         (Some (trim (or_empty (translation c))), Some SrcCard) \<and>
       translation (fst (enrichCard big c tokenizer dictionary st translator replace w)) =
         Some (trim (or_empty (translation c)))) \<and>
    (snd (resolve_tiers c st enabled replace breakdown) = Some SrcCard \<longrightarrow>
       pickTranslation c st = None \<and> (\<not> enabled \<or> \<not> replace))"
proof (intro conjI impI)
  assume "byId st (String_number (id' c)) = Some t"
  then show "pickTranslation c st = Some t"
    by (simp add: pickTranslation_def)
next
  assume "byId st (String_number (id' c)) = None \<and> subtitleId c = Some sid \<and>
       bySubtitleId st (String_number sid) = Some t"
  then show "pickTranslation c st = Some t"
    by (simp add: pickTranslation_def)
next
  assume "byId st (String_number (id' c)) = None \<and>
       (\<forall>sid. subtitleId c = Some sid \<longrightarrow> bySubtitleId st (String_number sid) = None) \<and>
       trim (or_empty (sentence c)) \<noteq> [] \<and>
       bySentence st (trim (or_empty (sentence c))) = Some t"
  then show "pickTranslation c st = Some t"
    by (cases "subtitleId c") (auto simp: pickTranslation_def Let_def)
next
  assume p: "pickTranslation c st = Some t"
  then have t: "t \<noteq> []"
    using assms by (rule pickTranslation_nonempty [rotated])
  from p t show "resolve_tiers c st enabled replace breakdown = (Some t, Some SrcHint)"
    by (rule resolve_tiers_hint)
  from p t show "translation (fst (enrichCard big c tokenizer dictionary st translator replace w)) = Some t"
    by (simp add: enrichCard_hint)
next
  assume a: "pickTranslation c st = None \<and> trim (or_empty (translation c)) \<noteq> [] \<and>
       (translator = None \<or> \<not> replace)"
  then show "resolve_tiers c st (translator \<noteq> None) replace breakdown =
         (Some (trim (or_empty (translation c))), Some SrcCard)"
    by (intro resolve_tiers_card) (auto simp: truthy_def)
  from a show "translation (fst (enrichCard big c tokenizer dictionary st translator replace w)) =
         Some (trim (or_empty (translation c)))"
    by (intro enrichCard_card_translation) (auto simp: truthy_def)
next
  assume s: "snd (resolve_tiers c st enabled replace breakdown) = Some SrcCard"
  then have "\<not> truthy (pickTranslation c st)" and e: "\<not> enabled \<or> \<not> replace"
    using resolve_tiers_source_card [OF s] by auto
  then have "pickTranslation c st = None"
    using pickTranslation_nonempty [OF assms, of c] by (cases "pickTranslation c st") (auto simp: truthy_def)
  then show "pickTranslation c st = None" .
  from e show "\<not> enabled \<or> \<not> replace" .
qed

text \<open>
  Claim C1, witness: on a state with one hint in each index, the card with id 5 takes
  the hint under its id although its subtitleId and its sentence have hints too and it
  has a translation of its own; with another id it takes the hint under its subtitleId;
  without a subtitleId the hint under its sentence; and with no hint at all, when the
  translator is set to keep existing values, its own trimmed translation.
\<close>

theorem translation_priority_witness:
  "pickTranslation example_card example_hints = Some (js ''Hello there'') \<and>
   pickTranslation (example_card \<lparr> id' := Integer 6 \<rparr>) example_hints = Some (js ''By subtitle'') \<and>
   pickTranslation (example_card \<lparr> id' := Integer 6, subtitleId := None \<rparr>) example_hints =
     Some (js ''By sentence'') \<and>
   translation (fst (enrichCard example_rounding example_card example_tokenizer Map.empty
      example_hints (Some (deepl_translator failing_client (js ''default'') None)) True 0)) =
     Some (js ''Hello there'') \<and>
   translation (fst (enrichCard example_rounding
      (example_card \<lparr> id' := Integer 6, subtitleId := None, sentence := None \<rparr>)
      example_tokenizer Map.empty example_hints
      (Some (deepl_translator failing_client (js ''default'') None)) False 0)) = Some (js ''mine'') \<and>
   pickTranslation (example_card \<lparr> id' := Integer 6, subtitleId := None, sentence := None \<rparr>)
     example_hints = None"
proof -
  have h: "hints_nonempty example_hints"
    by (simp add: hints_nonempty_def example_hints_def js_def)
  let ?b = "example_card \<lparr> id' := Integer 6 \<rparr>"
  let ?c = "example_card \<lparr> id' := Integer 6, subtitleId := None \<rparr>"
  let ?d = "example_card \<lparr> id' := Integer 6, subtitleId := None, sentence := None \<rparr>"
  let ?tr = "Some (deepl_translator failing_client (js ''default'') None)"
  have 1: "byId example_hints (String_number (id' example_card)) = Some (js ''Hello there'')"
    by (simp add: enrich_eval js_def)
  have 2: "byId example_hints (String_number (id' ?b)) = None \<and> subtitleId ?b = Some (Integer 7) \<and>
       bySubtitleId example_hints (String_number (Integer 7)) = Some (js ''By subtitle'')"
    by (simp add: enrich_eval js_def)
  have 3: "byId example_hints (String_number (id' ?c)) = None \<and>
       (\<forall>sid. subtitleId ?c = Some sid \<longrightarrow> bySubtitleId example_hints (String_number sid) = None) \<and>
       trim (or_empty (sentence ?c)) \<noteq> [] \<and>
       bySentence example_hints (trim (or_empty (sentence ?c))) = Some (js ''By sentence'')"
    by (simp add: enrich_eval str_eval)
  have 5: "pickTranslation ?d example_hints = None \<and> trim (or_empty (translation ?d)) \<noteq> [] \<and>
       (?tr = None \<or> \<not> False)"
    by (simp add: enrich_eval str_eval)
  have 6: "snd (resolve_tiers ?d example_hints True False []) = Some SrcCard"
    by (simp add: enrich_eval str_eval)
  have t: "trim (or_empty (translation ?d)) = js ''mine''"
    by (simp add: enrich_eval str_eval)
  note P = translation_priority [OF h]
  note P1 = P [THEN conjunct1, rule_format]
  note P2 = P [THEN conjunct2, THEN conjunct1, rule_format]
  note P3 = P [THEN conjunct2, THEN conjunct2, THEN conjunct1, rule_format]
  note P4 = P [THEN conjunct2, THEN conjunct2, THEN conjunct2, THEN conjunct1, rule_format]
  note P5 = P [THEN conjunct2, THEN conjunct2, THEN conjunct2, THEN conjunct2, THEN conjunct1,
    rule_format]
  note P6 = P [THEN conjunct2, THEN conjunct2, THEN conjunct2, THEN conjunct2, THEN conjunct2,
    rule_format]
  have a: "pickTranslation example_card example_hints = Some (js ''Hello there'')"
    by (rule P1 [OF 1])
  have b: "pickTranslation ?b example_hints = Some (js ''By subtitle'')"
    by (rule P2 [OF 2])
  have c: "pickTranslation ?c example_hints = Some (js ''By sentence'')"
    by (rule P3 [OF 3])
  have d: "translation (fst (enrichCard example_rounding example_card example_tokenizer Map.empty
      example_hints ?tr True 0)) = Some (js ''Hello there'')"
    by (rule P4 [OF a, THEN conjunct2])
  have "translation (fst (enrichCard example_rounding ?d example_tokenizer Map.empty
      example_hints ?tr False 0)) = Some (trim (or_empty (translation ?d)))"
    by (rule P5 [OF 5, THEN conjunct2])
  then have e: "translation (fst (enrichCard example_rounding ?d example_tokenizer Map.empty
      example_hints ?tr False 0)) = Some (js ''mine'')"
    unfolding t .
  have f: "pickTranslation ?d example_hints = None"
    by (rule P6 [OF 6, THEN conjunct1])
  from a b c d e f show ?thesis
    by (intro conjI)
qed











text \<open>
  Claim C9. The tabular sanitization is idempotent: for every string, and for null or
  undefined, sanitizing the sanitized value gives the sanitized value again.
\<close>

theorem clean_idempotent: "clean (Some (clean v)) = clean v"
proof -
  have "clean (Some (clean v)) = trim (clean v)"
    by (simp add: clean_def [of "Some (clean v)"] replace_tabs_id [OF clean_no_tab]
        replace_newlines_id [OF clean_no_lf])
  also have "\<dots> = clean v"
    by (simp add: clean_def trim_trim)
  finally show ?thesis .
qed


end
